theory Spec2Isabelle
  imports Complex_Main
begin

section \<open>The assessment wizard of \<open>AssessmentComponent\<close>\<close>

text \<open>
  The component \<open>AssessmentComponent\<close> (frontend/src/App.js, and an older copy of the
  same component whose flag is called \<open>loading\<close>) keeps a cursor \<open>currentStep\<close>, an
  object \<open>responses\<close> from question ids to option values, a flag \<open>assessmentLoading\<close>
  and the backend's reply \<open>result\<close>. Its handlers are modelled as functions from the
  state before an event to the state after it.

  A question is an object \<open>{id, question, type, options}\<close>. The prompt, the type (always
  \<open>radio\<close>) and the labels of the options are only displayed, so the model keeps the id
  and the option values, in the order of the source.
\<close>

record question =
  qid :: string
  options :: "string list"

definition questions :: "question list" where
  "questions =
    [\<lparr>qid = ''company_description'',
      options = [''medical_diagnosis'', ''treatment_recommendation'',
                 ''insurance_risk_assessment'', ''automated_underwriting'', ''other'']\<rparr>,
     \<lparr>qid = ''medical_diagnosis'', options = [''yes'', ''partial'', ''no'']\<rparr>,
     \<lparr>qid = ''automated_decision_making'', options = [''yes'', ''partial'', ''no'']\<rparr>,
     \<lparr>qid = ''biometric_identification'', options = [''yes'', ''partial'', ''no'']\<rparr>,
     \<lparr>qid = ''emotion_recognition'', options = [''yes'', ''partial'', ''no'']\<rparr>,
     \<lparr>qid = ''data_processing'',
      options = [''sensitive'', ''personal'', ''anonymous'', ''none'']\<rparr>,
     \<lparr>qid = ''transparency'', options = [''full'', ''partial'', ''minimal'', ''none'']\<rparr>,
     \<lparr>qid = ''human_oversight'',
      options = [''continuous'', ''periodic'', ''exception'', ''none'']\<rparr>]"

type_synonym answers = "string \<rightharpoonup> string"

text \<open>
  The reply of the backend to a submitted assessment, as the component displays it:
  \<open>result.risk_score\<close>, \<open>result.risk_level\<close> (compared with \<open>'minimal'\<close>,
  \<open>'limited'\<close>, \<open>'high'\<close>, \<open>'unacceptable'\<close>), \<open>result.compliance_status\<close>
  (\<open>'compliant'\<close>, \<open>'partially_compliant'\<close>, \<open>'non_compliant'\<close>, and on the dashboard
  \<open>'not_assessed'\<close>), \<open>result.recommendations\<close> and \<open>result.created_at\<close>. Scores are
  floating-point numbers in the program and real numbers here.
\<close>

datatype risk_level = Minimal | Limited | High | Unacceptable

datatype compliance_status = Compliant | Partially_compliant | Non_compliant | Not_assessed

record assessment_result =
  risk_score :: real
  risk_level :: risk_level
  compliance_status :: compliance_status
  recommendations :: "string list"
  created_at :: nat

record wizard =
  currentStep :: int
  responses :: answers
  assessmentLoading :: bool
  result :: "assessment_result option"

text \<open>\<open>useState(0)\<close>, \<open>useState({})\<close>, \<open>useState(false)\<close>, \<open>useState(null)\<close>.\<close>

definition start :: wizard where
  "start = \<lparr>currentStep = 0, responses = Map.empty, assessmentLoading = False,
     result = None\<rparr>"

text \<open>
  \<open>setResponses(prev => ({...prev, [questionId]: value}))\<close>: a copy of the object with
  one key set. Nothing is checked.
\<close>

definition handleAnswer :: "wizard \<Rightarrow> string \<Rightarrow> string \<Rightarrow> wizard" where
  "handleAnswer s questionId v = s\<lparr>responses := (responses s)(questionId \<mapsto> v)\<rparr>"

text \<open>
  \<open>submitAssessment\<close> is asynchronous. Up to the \<open>await\<close> it sets
  \<open>assessmentLoading\<close> and posts \<open>{responses}\<close>; this is what \<open>handleNext\<close> runs. When
  the request settles, \<open>submitSettled\<close> runs the rest: a reply is stored in \<open>result\<close>,
  a failure (\<open>None\<close>) is only logged, and the flag is cleared in both cases.
\<close>

definition submitAssessment :: "wizard \<Rightarrow> wizard" where
  "submitAssessment s = s\<lparr>assessmentLoading := True\<rparr>"

definition submitSettled :: "wizard \<Rightarrow> assessment_result option \<Rightarrow> wizard" where
  "submitSettled s reply =
     (case reply of
        Some d \<Rightarrow> s\<lparr>result := Some d, assessmentLoading := False\<rparr>
      | None \<Rightarrow> s\<lparr>assessmentLoading := False\<rparr>)"

definition handleNext :: "wizard \<Rightarrow> wizard" where
  "handleNext s =
     (if currentStep s < int (length questions) - 1
      then s\<lparr>currentStep := currentStep s + 1\<rparr>
      else submitAssessment s)"

definition handlePrevious :: "wizard \<Rightarrow> wizard" where
  "handlePrevious s =
     (if currentStep s > 0 then s\<lparr>currentStep := currentStep s - 1\<rparr> else s)"

text \<open>
  \<open>questions[currentStep]\<close>: an index outside the array reads \<open>undefined\<close>, which is
  \<open>None\<close> here. Reading a property of \<open>undefined\<close> throws a \<open>TypeError\<close>.
\<close>

datatype js_error = TypeError

definition currentQuestion :: "wizard \<Rightarrow> question option" where
  "currentQuestion s =
     (if 0 \<le> currentStep s \<and> currentStep s < int (length questions)
      then Some (questions ! nat (currentStep s)) else None)"

text \<open>JavaScript's truthiness of \<open>responses[id]\<close>: \<open>undefined\<close> and \<open>''\<close> are falsy.\<close>

fun truthy :: "string option \<Rightarrow> bool" where
  "truthy None = False"
| "truthy (Some v) = (v \<noteq> [])"

text \<open>
  The radio group shows \<open>responses[currentQuestion.id] || ''\<close>: the recorded value, or
  the empty string when there is none (and an empty recorded value is shown as itself).
\<close>

definition radioValue :: "wizard \<Rightarrow> js_error + string" where
  "radioValue s =
     (case currentQuestion s of
        None \<Rightarrow> Inl TypeError
      | Some q \<Rightarrow> Inr (case responses s (qid q) of None \<Rightarrow> [] | Some v \<Rightarrow> v))"

text \<open>
  The component returns the result view \<open>if (result)\<close>, the spinner
  \<open>if (assessmentLoading)\<close>, and the question form otherwise.
\<close>

definition formShown :: "wizard \<Rightarrow> bool" where
  "formShown s = (result s = None \<and> \<not> assessmentLoading s)"



text \<open>
  The two buttons of the form. \<open>Anterior\<close> is disabled when \<open>currentStep === 0\<close>; the
  forward button is disabled when \<open>!responses[currentQuestion.id]\<close>. A click on a
  disabled button runs no handler (\<open>Inert\<close>). Without the form there is no button
  (\<open>Hidden\<close>), and a form that reads \<open>currentQuestion.question\<close> of \<open>undefined\<close>
  throws instead of rendering.
\<close>

datatype click = Hidden | Unrendered js_error | Inert | Dispatched wizard

definition clickNext :: "wizard \<Rightarrow> click" where
  "clickNext s =
     (if \<not> formShown s then Hidden
      else case currentQuestion s of
        None \<Rightarrow> Unrendered TypeError
      | Some q \<Rightarrow>
          if \<not> truthy (responses s (qid q)) then Inert else Dispatched (handleNext s))"

definition clickPrevious :: "wizard \<Rightarrow> click" where
  "clickPrevious s =
     (if \<not> formShown s then Hidden
      else case currentQuestion s of
        None \<Rightarrow> Unrendered TypeError
      | Some q \<Rightarrow> if currentStep s = 0 then Inert else Dispatched (handlePrevious s))"

text \<open>
  The states the handlers can produce from the initial one, in any order, whether or
  not a button would have let them run, together with the settling of a request.
\<close>

inductive reachable :: "wizard \<Rightarrow> bool" where
  r_start: "reachable start"
| r_answer: "reachable s \<Longrightarrow> reachable (handleAnswer s questionId v)"
| r_next: "reachable s \<Longrightarrow> reachable (handleNext s)"
| r_previous: "reachable s \<Longrightarrow> reachable (handlePrevious s)"
| r_settled: "reachable s \<Longrightarrow> reachable (submitSettled s reply)"

text \<open>
  \<open>onValueChange={(value) => handleAnswer(currentQuestion.id, value)}\<close>: the radio
  group hands over the chosen value, and the component supplies the id of the question
  on display.
\<close>

definition onValueChange :: "wizard \<Rightarrow> string \<Rightarrow> js_error + wizard" where
  "onValueChange s v =
     (case currentQuestion s of
        None \<Rightarrow> Inl TypeError
      | Some q \<Rightarrow> Inr (handleAnswer s (qid q) v))"

text \<open>Sessions: a list of handler calls, run from the initial state.\<close>

datatype event = Answer string string | Next | Previous | Settled "assessment_result option"

fun handle :: "wizard \<Rightarrow> event \<Rightarrow> wizard" where
  "handle s (Answer questionId v) = handleAnswer s questionId v"
| "handle s Next = handleNext s"
| "handle s Previous = handlePrevious s"
| "handle s (Settled reply) = submitSettled s reply"

definition run :: "event list \<Rightarrow> wizard" where
  "run es = foldl handle start es"

text \<open>
  Three sessions used below: the first question answered; the first question answered
  and left; every question answered with its first option, the cursor on the last one.
\<close>

definition first_answered :: wizard where
  "first_answered = run [Answer ''company_description'' ''other'']"

definition second_step :: wizard where
  "second_step = run [Answer ''company_description'' ''other'', Next]"

definition all_answered :: wizard where
  "all_answered = run
     [Answer ''company_description'' ''medical_diagnosis'', Next,
      Answer ''medical_diagnosis'' ''yes'', Next,
      Answer ''automated_decision_making'' ''yes'', Next,
      Answer ''biometric_identification'' ''yes'', Next,
      Answer ''emotion_recognition'' ''yes'', Next,
      Answer ''data_processing'' ''sensitive'', Next,
      Answer ''transparency'' ''full'', Next,
      Answer ''human_oversight'' ''continuous'']"



section \<open>The scoring function\<close>

text \<open>
  The component posts \<open>{responses}\<close> to the backend's \<open>/assessments\<close> endpoint and
  displays the reply. The backend (\<open>server.py\<close>) that computes the reply is outside the
  frontend sources embedded above, so the scoring function below follows the
  specification, section 4.2, step by step. The rule table is configuration and is a
  parameter.
\<close>

text \<open>
  Modelled from the spec: the rule table of the backend, a sequence of entries
  \<open>(questionId, value) -> {scoreDelta, recommendation}\<close> (sections 3 and 6).
\<close>

record risk_rule =
  rule_question :: string
  rule_value :: string
  scoreDelta :: real
  recommendation :: "string option"

datatype score_error = IncompleteAnswerSetError

text \<open>
  Modelled from the spec: the backend's completeness check; an answer set is complete
  when it has an entry for every question id of the fixed list (section 3).
\<close>

definition complete_answers :: "answers \<Rightarrow> bool" where
  "complete_answers a = list_all (\<lambda>q. a (qid q) \<noteq> None) questions"

text \<open>
  Modelled from the spec: the backend's rule lookup (section 4.2, step 1); the rules
  triggered are those whose pair \<open>(questionId, value)\<close> is in the answer set, in the
  order of the table.
\<close>

definition triggered :: "risk_rule list \<Rightarrow> answers \<Rightarrow> risk_rule list" where
  "triggered rules a = filter (\<lambda>r. a (rule_question r) = Some (rule_value r)) rules"

text \<open>
  Modelled from the spec: the backend's accumulation (step 2); the contributions of
  the triggered rules are summed.
\<close>

definition accumulated :: "risk_rule list \<Rightarrow> answers \<Rightarrow> real" where
  "accumulated rules a = sum_list (map scoreDelta (triggered rules a))"

text \<open>
  Modelled from the spec: the backend's clamp (step 3); a floor at 0 and a ceiling at
  10.
\<close>

definition clamp_score :: "real \<Rightarrow> real" where
  "clamp_score x = (if x < 0 then 0 else if x > 10 then 10 else x)"

text \<open>Modelled from the spec: the backend's thresholds (step 4).\<close>

definition level_of :: "real \<Rightarrow> risk_level" where
  "level_of x =
     (if x < 2.5 then Minimal
      else if x < 5 then Limited
      else if x < 7.5 then High
      else Unacceptable)"

text \<open>Modelled from the spec: the backend's mapping to a compliance status (step 5).\<close>

fun status_of :: "risk_level \<Rightarrow> compliance_status" where
  "status_of Minimal = Compliant"
| "status_of Limited = Partially_compliant"
| "status_of High = Partially_compliant"
| "status_of Unacceptable = Non_compliant"

text \<open>
  Modelled from the spec: the backend's collection of recommendations (step 6); those
  of the triggered rules, in table order, each kept at its first occurrence.
\<close>

definition collect :: "risk_rule list \<Rightarrow> string list" where
  "collect rs = rev (remdups (rev (List.map_filter recommendation rs)))"

text \<open>
  Modelled from the spec: the backend's \<open>score\<close> (section 4.2); it fails with
  \<open>IncompleteAnswerSetError\<close> on an incomplete answer set and otherwise performs steps
  1 to 7. The current time is the argument \<open>now\<close>.
\<close>

definition score :: "risk_rule list \<Rightarrow> nat \<Rightarrow> answers \<Rightarrow> score_error + assessment_result" where
  "score rules now a =
     (if \<not> complete_answers a then Inl IncompleteAnswerSetError
      else
        let s = clamp_score (accumulated rules a); l = level_of s
        in Inr \<lparr>risk_score = s, risk_level = l, compliance_status = status_of l,
                recommendations = collect (triggered rules a), created_at = now\<rparr>)"

text \<open>
  A small rule table for the examples. The session \<open>all_answered\<close> triggers its
  first four rules, two of them for the same answer, and not the last.
\<close>

definition example_rules :: "risk_rule list" where
  "example_rules =
     [\<lparr>rule_question = ''medical_diagnosis'', rule_value = ''yes'', scoreDelta = 2.5,
       recommendation = Some ''clinical validation''\<rparr>,
      \<lparr>rule_question = ''biometric_identification'', rule_value = ''yes'', scoreDelta = 2.5,
       recommendation = Some ''impact assessment''\<rparr>,
      \<lparr>rule_question = ''data_processing'', rule_value = ''sensitive'', scoreDelta = 4,
       recommendation = Some ''impact assessment''\<rparr>,
      \<lparr>rule_question = ''data_processing'', rule_value = ''sensitive'', scoreDelta = 3,
       recommendation = None\<rparr>,
      \<lparr>rule_question = ''transparency'', rule_value = ''none'', scoreDelta = 2,
       recommendation = Some ''inform users''\<rparr>]"

text \<open>The table cut down to its first rule, and to its first two.\<close>

definition one_rule :: "risk_rule list" where
  "one_rule = take 1 example_rules"

definition two_rules :: "risk_rule list" where
  "two_rules = take 2 example_rules"

section \<open>Properties of the wizard\<close>

lemma length_questions: "length questions = 8"
  by (simp add: questions_def)

lemma reachable_step_range:
  "reachable s \<Longrightarrow> 0 \<le> currentStep s \<and> currentStep s < int (length questions)"
proof (induction rule: reachable.induct)
  case r_start
  show ?case by (simp add: start_def length_questions)
next
  case (r_answer s questionId v)
  then show ?case by (simp add: handleAnswer_def)
next
  case (r_next s)
  then show ?case by (simp add: handleNext_def submitAssessment_def)
next
  case (r_previous s)
  then show ?case by (simp add: handlePrevious_def)
next
  case (r_settled s reply)
  then show ?case by (simp add: submitSettled_def split: option.split)
qed

text \<open>
  Claim C9: recording an answer changes only the entry of that question id. Every
  other entry of \<open>responses\<close> keeps its value, and \<open>currentStep\<close> (like the loading
  flag and the result) is unchanged.
\<close>

theorem handleAnswer_frame:
  "(\<forall>k. k \<noteq> questionId \<longrightarrow> responses (handleAnswer s questionId v) k = responses s k)
   \<and> responses (handleAnswer s questionId v) questionId = Some v
   \<and> currentStep (handleAnswer s questionId v) = currentStep s
   \<and> assessmentLoading (handleAnswer s questionId v) = assessmentLoading s
   \<and> result (handleAnswer s questionId v) = result s"
  by (simp add: handleAnswer_def)

theorem handleAnswer_frame_witness:
  "''transparency'' \<noteq> ''medical_diagnosis''
   \<and> responses (handleAnswer (handleAnswer start ''transparency'' ''full'')
        ''medical_diagnosis'' ''no'') ''transparency'' = Some ''full''
   \<and> currentStep (handleAnswer (handleAnswer start ''transparency'' ''full'')
        ''medical_diagnosis'' ''no'') = 0"
  using handleAnswer_frame [of "''medical_diagnosis''"
      "handleAnswer start ''transparency'' ''full''" "''no''"]
  by (simp add: handleAnswer_def start_def)

lemma reachable_foldl: "reachable s \<Longrightarrow> reachable (foldl handle s es)"
proof (induction es arbitrary: s)
  case Nil
  then show ?case by simp
next
  case (Cons e es)
  have "reachable (handle s e)"
    using Cons.prems by (cases e) (simp_all add: reachable.intros)
  then show ?case using Cons.IH by simp
qed

lemma reachable_run: "reachable (run es)"
  unfolding run_def by (rule reachable_foldl) (rule r_start)

lemma clickNext_reachable: "reachable s \<Longrightarrow> clickNext s = Dispatched s' \<Longrightarrow> reachable s'"
  by (auto simp: clickNext_def r_next split: option.splits if_splits)

lemma clickPrevious_reachable:
  "reachable s \<Longrightarrow> clickPrevious s = Dispatched s' \<Longrightarrow> reachable s'"
  by (auto simp: clickPrevious_def r_previous split: option.splits if_splits)

lemma onValueChange_reachable: "reachable s \<Longrightarrow> onValueChange s v = Inr s' \<Longrightarrow> reachable s'"
  by (auto simp: onValueChange_def r_answer split: option.splits)

lemma first_answered_eq:
  "first_answered = \<lparr>currentStep = 0,
     responses = [''company_description'' \<mapsto> ''other''], assessmentLoading = False,
     result = None\<rparr>"
  by (simp add: first_answered_def run_def start_def handleAnswer_def)

lemma second_step_eq:
  "second_step = \<lparr>currentStep = 1,
     responses = [''company_description'' \<mapsto> ''other''], assessmentLoading = False,
     result = None\<rparr>"
  by (simp add: second_step_def run_def start_def handleAnswer_def handleNext_def
      length_questions)

lemma all_answered_step: "currentStep all_answered = 7"
  by (simp add: all_answered_def run_def start_def handleAnswer_def handleNext_def
      length_questions)

lemma all_answered_last: "responses all_answered ''human_oversight'' = Some ''continuous''"
  by (simp add: all_answered_def run_def start_def handleAnswer_def handleNext_def
      length_questions)

lemma all_answered_shown: "formShown all_answered"
  by (simp add: formShown_def all_answered_def run_def start_def handleAnswer_def
      handleNext_def length_questions)

lemma question_at_0: "questions ! 0 = \<lparr>qid = ''company_description'',
      options = [''medical_diagnosis'', ''treatment_recommendation'',
                 ''insurance_risk_assessment'', ''automated_underwriting'', ''other'']\<rparr>"
  by (simp add: questions_def)

lemma question_at_7: "questions ! 7 = \<lparr>qid = ''human_oversight'',
      options = [''continuous'', ''periodic'', ''exception'', ''none'']\<rparr>"
  by (simp add: questions_def)




text \<open>
  Claim C8: in every state that the handlers produce from the initial one, in any
  number and order of calls, \<open>currentStep\<close> is at least 0 and at most the number of
  questions.
\<close>

theorem reachable_step_bounds:
  "reachable s \<Longrightarrow> 0 \<le> currentStep s \<and> currentStep s \<le> int (length questions)"
  using reachable_step_range [of s] by simp

theorem reachable_step_bounds_witness:
  "reachable all_answered \<and> 0 \<le> currentStep all_answered
   \<and> currentStep all_answered \<le> int (length questions)"
proof -
  have h: "reachable all_answered"
    unfolding all_answered_def by (rule reachable_run)
  show ?thesis
    using h reachable_step_bounds [OF h] by simp
qed

text \<open>
  Claim C10: in every such state \<open>currentStep\<close> is strictly below the number of
  questions, so \<open>questions[currentStep]\<close> is one of the questions and never
  \<open>undefined\<close>; on the last question \<open>handleNext\<close> submits and leaves the cursor where
  it is.
\<close>

theorem reachable_question_defined:
  "reachable s \<Longrightarrow>
     currentStep s < int (length questions)
     \<and> (\<exists>q. currentQuestion s = Some q \<and> q \<in> set questions)
     \<and> (currentStep s = int (length questions) - 1 \<longrightarrow>
          handleNext s = submitAssessment s \<and> currentStep (handleNext s) = currentStep s)"
proof -
  assume r: "reachable s"
  have range: "0 \<le> currentStep s" "currentStep s < int (length questions)"
    using reachable_step_range [OF r] by simp_all
  then have "nat (currentStep s) < length questions" by simp
  then have "questions ! nat (currentStep s) \<in> set questions" by (rule nth_mem)
  then have "\<exists>q. currentQuestion s = Some q \<and> q \<in> set questions"
    using range by (simp add: currentQuestion_def)
  moreover have "currentStep s = int (length questions) - 1 \<longrightarrow>
      handleNext s = submitAssessment s \<and> currentStep (handleNext s) = currentStep s"
    by (simp add: handleNext_def submitAssessment_def)
  ultimately show ?thesis using range by (simp add: submitAssessment_def)
qed

theorem reachable_question_defined_witness:
  "reachable all_answered
   \<and> currentStep all_answered = int (length questions) - 1
   \<and> currentQuestion all_answered = Some (questions ! 7)
   \<and> handleNext all_answered = submitAssessment all_answered
   \<and> currentStep (handleNext all_answered) = 7"
proof -
  have h: "reachable all_answered"
    unfolding all_answered_def by (rule reachable_run)
  have l: "currentStep all_answered = int (length questions) - 1"
    by (simp add: all_answered_step length_questions)
  have "currentQuestion all_answered = Some (questions ! 7)"
    by (simp add: currentQuestion_def all_answered_step length_questions)
  then show ?thesis
    using h l reachable_question_defined [OF h]
    by (simp add: all_answered_step submitAssessment_def)
qed

text \<open>
  Claim C7: \<open>handlePrevious\<close> moves the cursor back by one, not below 0, and leaves
  \<open>responses\<close> as it is. Hence stepping back and forward again changes no answer; from
  a step after the first the pair returns to the very same state, and on the form the
  back button runs \<open>handlePrevious\<close>, the radio group of the revisited question shows
  the value recorded before, and the forward button is enabled without a new selection.
\<close>

theorem handlePrevious_keeps_answers:
  "0 \<le> currentStep s \<Longrightarrow>
     currentStep (handlePrevious s) = max 0 (currentStep s - 1)
     \<and> responses (handlePrevious s) = responses s
     \<and> responses (handleNext (handlePrevious s)) = responses s
     \<and> (0 < currentStep s \<and> currentStep s < int (length questions) \<longrightarrow>
          handleNext (handlePrevious s) = s
          \<and> (\<forall>v. formShown s \<and> v \<noteq> []
                  \<and> responses s (qid (questions ! nat (currentStep s - 1))) = Some v \<longrightarrow>
                clickPrevious s = Dispatched (handlePrevious s)
                \<and> radioValue (handlePrevious s) = Inr v
                \<and> clickNext (handlePrevious s) = Dispatched s))"
proof -
  assume nonneg: "0 \<le> currentStep s"
  have step: "currentStep (handlePrevious s) = max 0 (currentStep s - 1)"
    using nonneg by (simp add: handlePrevious_def)
  have same: "responses (handlePrevious s) = responses s"
    by (simp add: handlePrevious_def)
  have again: "responses (handleNext (handlePrevious s)) = responses s"
    by (simp add: handleNext_def handlePrevious_def submitAssessment_def)
  have forth: "handleNext (handlePrevious s) = s \<and>
      (\<forall>v. formShown s \<and> v \<noteq> []
           \<and> responses s (qid (questions ! nat (currentStep s - 1))) = Some v \<longrightarrow>
         clickPrevious s = Dispatched (handlePrevious s)
         \<and> radioValue (handlePrevious s) = Inr v
         \<and> clickNext (handlePrevious s) = Dispatched s)"
    if inside: "0 < currentStep s \<and> currentStep s < int (length questions)"
  proof -
    have prev: "handlePrevious s = s\<lparr>currentStep := currentStep s - 1\<rparr>"
      using inside by (simp add: handlePrevious_def)
    have round: "handleNext (handlePrevious s) = s"
      using inside by (simp add: prev handleNext_def)
    have cq: "currentQuestion (handlePrevious s) = Some (questions ! nat (currentStep s - 1))"
      using inside by (simp add: prev currentQuestion_def)
    have shown: "formShown (handlePrevious s) = formShown s"
      by (simp add: prev formShown_def)
    have here: "currentQuestion s = Some (questions ! nat (currentStep s))"
      using inside by (simp add: currentQuestion_def)
    have button: "formShown s \<longrightarrow> clickPrevious s = Dispatched (handlePrevious s)"
      using inside by (simp add: clickPrevious_def here)
    show ?thesis
      using round cq button by (simp add: radioValue_def clickNext_def same shown)
  qed
  show ?thesis
    using step same again forth by blast
qed

theorem handlePrevious_keeps_answers_witness:
  "0 \<le> currentStep second_step
   \<and> (0 < currentStep second_step \<and> currentStep second_step < int (length questions))
   \<and> formShown second_step \<and> ''other'' \<noteq> []
   \<and> responses second_step (qid (questions ! nat (currentStep second_step - 1))) = Some ''other''
   \<and> currentStep (handlePrevious second_step) = 0
   \<and> radioValue (handlePrevious second_step) = Inr ''other''
   \<and> clickNext (handlePrevious second_step) = Dispatched second_step"
proof -
  have h: "0 \<le> currentStep second_step"
    by (simp add: second_step_eq)
  have i: "0 < currentStep second_step \<and> currentStep second_step < int (length questions)"
    by (simp add: second_step_eq length_questions)
  have a: "formShown second_step \<and> ''other'' \<noteq> [] \<and>
      responses second_step (qid (questions ! nat (currentStep second_step - 1))) = Some ''other''"
    by (simp add: second_step_eq question_at_0 formShown_def)
  have m: "max 0 (currentStep second_step - 1) = 0"
    by (simp add: second_step_eq)
  show ?thesis
    using h i a m handlePrevious_keeps_answers [OF h] by simp
qed

text \<open>
  Claim C1, as stated, fails on the last question: every question is answered, the
  forward button is enabled, and the click submits the assessment; \<open>currentStep\<close>
  stays at 7.
\<close>

theorem clickNext_last_step_counterexample:
  "reachable all_answered \<and> formShown all_answered
   \<and> currentQuestion all_answered = Some (questions ! 7)
   \<and> qid (questions ! 7) = ''human_oversight''
   \<and> responses all_answered ''human_oversight'' = Some ''continuous''
   \<and> clickNext all_answered = Dispatched (submitAssessment all_answered)
   \<and> currentStep all_answered = 7
   \<and> currentStep (submitAssessment all_answered) = 7"
proof -
  have r: "reachable all_answered"
    unfolding all_answered_def by (rule reachable_run)
  have q: "currentQuestion all_answered = Some (questions ! 7)"
    by (simp add: currentQuestion_def all_answered_step length_questions)
  have n: "handleNext all_answered = submitAssessment all_answered"
    by (simp add: handleNext_def all_answered_step length_questions)
  have c: "clickNext all_answered = Dispatched (submitAssessment all_answered)"
    by (simp add: clickNext_def all_answered_shown q question_at_7 all_answered_last n)
  show ?thesis
    using r q c all_answered_shown
    by (simp add: question_at_7 all_answered_last all_answered_step submitAssessment_def)
qed

text \<open>
  Claim C1, amended: on the form, with the cursor on a question, the forward button
  moves to a state with \<open>currentStep + 1\<close> (answers untouched) exactly when \<open>responses\<close>
  holds a non-empty value for that question and the question is not the last one. On
  the last question, with such a value, the click submits and the cursor stays. Without
  such a value the button is disabled: no handler runs, the state stays as it is, and
  nothing is raised.
\<close>

theorem clickNext_gate:
  "formShown s \<Longrightarrow> currentQuestion s = Some q \<Longrightarrow>
     (\<not> truthy (responses s (qid q)) \<longrightarrow> clickNext s = Inert)
     \<and> (truthy (responses s (qid q)) \<and> currentStep s < int (length questions) - 1 \<longrightarrow>
          clickNext s = Dispatched (s\<lparr>currentStep := currentStep s + 1\<rparr>))
     \<and> (truthy (responses s (qid q)) \<and> currentStep s = int (length questions) - 1 \<longrightarrow>
          clickNext s = Dispatched (s\<lparr>assessmentLoading := True\<rparr>))
     \<and> ((\<exists>s'. clickNext s = Dispatched s' \<and> currentStep s' = currentStep s + 1
              \<and> responses s' = responses s)
          \<longleftrightarrow> truthy (responses s (qid q)) \<and> currentStep s < int (length questions) - 1)"
  by (simp add: clickNext_def handleNext_def submitAssessment_def)

theorem clickNext_gate_witness:
  "formShown start \<and> formShown first_answered \<and> formShown all_answered
   \<and> currentQuestion start = Some (questions ! 0)
   \<and> \<not> truthy (responses start (qid (questions ! 0)))
   \<and> clickNext start = Inert
   \<and> currentQuestion first_answered = Some (questions ! 0)
   \<and> truthy (responses first_answered (qid (questions ! 0)))
   \<and> currentStep first_answered < int (length questions) - 1
   \<and> clickNext first_answered = Dispatched second_step
   \<and> currentQuestion all_answered = Some (questions ! 7)
   \<and> truthy (responses all_answered (qid (questions ! 7)))
   \<and> currentStep all_answered = int (length questions) - 1
   \<and> clickNext all_answered = Dispatched (all_answered\<lparr>assessmentLoading := True\<rparr>)"
proof -
  have q0: "currentQuestion start = Some (questions ! 0)"
    by (simp add: currentQuestion_def start_def length_questions)
  have t0: "\<not> truthy (responses start (qid (questions ! 0)))"
    by (simp add: start_def)
  have q1: "currentQuestion first_answered = Some (questions ! 0)"
    by (simp add: currentQuestion_def first_answered_eq length_questions)
  have t1: "truthy (responses first_answered (qid (questions ! 0)))"
    by (simp add: first_answered_eq question_at_0)
  have l1: "currentStep first_answered < int (length questions) - 1"
    by (simp add: first_answered_eq length_questions)
  have e1: "first_answered\<lparr>currentStep := currentStep first_answered + 1\<rparr> = second_step"
    by (simp add: first_answered_eq second_step_eq)
  have q7: "currentQuestion all_answered = Some (questions ! 7)"
    by (simp add: currentQuestion_def all_answered_step length_questions)
  have t7: "truthy (responses all_answered (qid (questions ! 7)))"
    by (simp add: question_at_7 all_answered_last)
  have l7: "currentStep all_answered = int (length questions) - 1"
    by (simp add: all_answered_step length_questions)
  have f0: "formShown start"
    by (simp add: formShown_def start_def)
  have f1: "formShown first_answered"
    by (simp add: formShown_def first_answered_eq)
  have f7: "formShown all_answered"
    by (rule all_answered_shown)
  have "clickNext start = Inert"
    using clickNext_gate [OF f0 q0] t0 by simp
  moreover have "clickNext first_answered = Dispatched second_step"
    using clickNext_gate [OF f1 q1] t1 l1 e1 by simp
  moreover have "clickNext all_answered = Dispatched (all_answered\<lparr>assessmentLoading := True\<rparr>)"
    using clickNext_gate [OF f7 q7] t7 l7 by simp
  ultimately show ?thesis
    using f0 f1 f7 q0 t0 q1 t1 l1 q7 t7 l7 by simp
qed

text \<open>
  Claim C5, as stated, fails: \<open>handleAnswer\<close> records a value that no question
  declares, under the id of a question that is not on display, and the radio group's
  callback records an undeclared value for the question on display. Neither fails.
\<close>

theorem handleAnswer_unchecked_counterexample:
  "currentQuestion start = Some (questions ! 0)
   \<and> qid (questions ! 0) = ''company_description''
   \<and> qid (questions ! 6) = ''transparency''
   \<and> ''bogus'' \<notin> set (options (questions ! 6))
   \<and> ''bogus'' \<notin> set (options (questions ! 0))
   \<and> responses (handleAnswer start ''transparency'' ''bogus'') ''transparency'' = Some ''bogus''
   \<and> onValueChange start ''bogus'' = Inr (handleAnswer start ''company_description'' ''bogus'')
   \<and> responses (handleAnswer start ''company_description'' ''bogus'') ''company_description''
       = Some ''bogus''"
proof -
  have q0: "currentQuestion start = Some (questions ! 0)"
    by (simp add: currentQuestion_def start_def length_questions)
  have q6: "questions ! 6 =
      \<lparr>qid = ''transparency'', options = [''full'', ''partial'', ''minimal'', ''none'']\<rparr>"
    by (simp add: questions_def)
  have o: "onValueChange start ''bogus'' = Inr (handleAnswer start ''company_description'' ''bogus'')"
    by (simp add: onValueChange_def q0 question_at_0)
  show ?thesis
    using q0 o by (simp add: q6 question_at_0 handleAnswer_def)
qed

text \<open>
  Claim C5, amended: \<open>handleAnswer\<close> checks neither the value nor the question id and
  never fails; for every state, id and value its result has \<open>responses[questionId]\<close>
  equal to the value. The restriction to the current question is the caller's: in every
  state the handlers produce, the radio group's callback succeeds and records the value,
  whatever it is, under the id of the question on display.
\<close>

theorem handleAnswer_unchecked:
  "responses (handleAnswer s questionId v) questionId = Some v
   \<and> (reachable s \<longrightarrow>
        (\<exists>q. currentQuestion s = Some q \<and> q \<in> set questions
           \<and> onValueChange s v = Inr (handleAnswer s (qid q) v)
           \<and> responses (handleAnswer s (qid q) v) (qid q) = Some v))"
proof -
  have own: "responses (handleAnswer s k v) k = Some v" for k
    by (simp add: handleAnswer_def)
  have "\<exists>q. currentQuestion s = Some q \<and> q \<in> set questions
           \<and> onValueChange s v = Inr (handleAnswer s (qid q) v)
           \<and> responses (handleAnswer s (qid q) v) (qid q) = Some v"
    if r: "reachable s"
  proof -
    have "0 \<le> currentStep s" "currentStep s < int (length questions)"
      using reachable_step_range [OF r] by simp_all
    then have "currentQuestion s = Some (questions ! nat (currentStep s))"
      and "questions ! nat (currentStep s) \<in> set questions"
      by (simp_all add: currentQuestion_def)
    then show ?thesis
      by (simp add: onValueChange_def own)
  qed
  then show ?thesis
    using own by blast
qed

theorem handleAnswer_unchecked_witness:
  "reachable first_answered
   \<and> currentQuestion first_answered = Some (questions ! 0)
   \<and> onValueChange first_answered ''bogus''
       = Inr (handleAnswer first_answered ''company_description'' ''bogus'')
   \<and> responses (handleAnswer first_answered ''company_description'' ''bogus'')
        ''company_description'' = Some ''bogus''"
proof -
  have r: "reachable first_answered"
    unfolding first_answered_def by (rule reachable_run)
  have q: "currentQuestion first_answered = Some (questions ! 0)"
    by (simp add: currentQuestion_def first_answered_eq length_questions)
  have "onValueChange first_answered ''bogus''
       = Inr (handleAnswer first_answered ''company_description'' ''bogus'')
     \<and> responses (handleAnswer first_answered ''company_description'' ''bogus'')
        ''company_description'' = Some ''bogus''"
    using handleAnswer_unchecked [of first_answered "''company_description''" "''bogus''"] r q
    by (simp add: question_at_0)
  then show ?thesis
    using r q by simp
qed

section \<open>Properties of the scoring function\<close>

lemma score_complete:
  "complete_answers a \<Longrightarrow>
     score rules now a =
       Inr \<lparr>risk_score = clamp_score (accumulated rules a),
            risk_level = level_of (clamp_score (accumulated rules a)),
            compliance_status = status_of (level_of (clamp_score (accumulated rules a))),
            recommendations = collect (triggered rules a), created_at = now\<rparr>"
  by (simp add: score_def Let_def)

lemma all_answered_responses:
  "responses all_answered =
     [''company_description'' \<mapsto> ''medical_diagnosis'', ''medical_diagnosis'' \<mapsto> ''yes'',
      ''automated_decision_making'' \<mapsto> ''yes'', ''biometric_identification'' \<mapsto> ''yes'',
      ''emotion_recognition'' \<mapsto> ''yes'', ''data_processing'' \<mapsto> ''sensitive'',
      ''transparency'' \<mapsto> ''full'', ''human_oversight'' \<mapsto> ''continuous'']"
  by (simp add: all_answered_def run_def start_def handleAnswer_def handleNext_def
      length_questions)

lemma all_answered_complete: "complete_answers (responses all_answered)"
  by (simp add: complete_answers_def questions_def all_answered_responses)

lemma accumulated_first_rule:
  "accumulated one_rule (responses all_answered) = 2.5"
  by (simp add: one_rule_def accumulated_def triggered_def example_rules_def all_answered_responses)

lemma accumulated_two_rules:
  "accumulated two_rules (responses all_answered) = 5"
  by (simp add: two_rules_def accumulated_def triggered_def example_rules_def all_answered_responses)

lemma accumulated_example_rules:
  "accumulated example_rules (responses all_answered) = 12"
  by (simp add: accumulated_def triggered_def example_rules_def all_answered_responses)

text \<open>
  Claim C2: for a complete answer set, scoring succeeds and the risk level follows the
  clamped score by the four bands, each closed below and open above: below 2.5 minimal,
  from 2.5 and below 5 limited, from 5 and below 7.5 high, from 7.5 unacceptable. The
  scores 2.5, 5 and 7.5 themselves fall into the upper band, and 2.49999 is still minimal.
\<close>

theorem score_level_bands:
  "complete_answers a \<Longrightarrow>
     \<exists>r. score rules now a = Inr r
       \<and> risk_score r = clamp_score (accumulated rules a)
       \<and> (risk_level r = Minimal \<longleftrightarrow> risk_score r < 2.5)
       \<and> (risk_level r = Limited \<longleftrightarrow> 2.5 \<le> risk_score r \<and> risk_score r < 5)
       \<and> (risk_level r = High \<longleftrightarrow> 5 \<le> risk_score r \<and> risk_score r < 7.5)
       \<and> (risk_level r = Unacceptable \<longleftrightarrow> 7.5 \<le> risk_score r)
       \<and> level_of 2.49999 = Minimal \<and> level_of 2.5 = Limited
       \<and> level_of 5 = High \<and> level_of 7.5 = Unacceptable"
  by (simp add: score_complete level_of_def)

theorem score_level_bands_witness:
  "complete_answers (responses all_answered)
   \<and> (\<exists>r. score one_rule 0 (responses all_answered) = Inr r
          \<and> risk_score r = 2.5 \<and> risk_level r = Limited)"
proof -
  have h: "complete_answers (responses all_answered)"
    by (rule all_answered_complete)
  obtain r where r: "score one_rule 0 (responses all_answered) = Inr r"
    and s: "risk_score r = clamp_score (accumulated one_rule (responses all_answered))"
    and l: "risk_level r = Limited \<longleftrightarrow> 2.5 \<le> risk_score r \<and> risk_score r < 5"
    using score_level_bands [OF h, of one_rule 0] by blast
  have "risk_score r = 2.5"
    by (simp add: s accumulated_first_rule clamp_score_def)
  then show ?thesis
    using h r l by simp
qed

text \<open>
  Claim C3: for a complete answer set, scoring succeeds and the risk score lies between
  0 and 10, both included. It is the accumulated total cut off at the two ends, not
  rescaled: a total inside the interval is returned as it is, and the risk level is
  taken from the score after the cut.
\<close>

theorem score_clamped:
  "complete_answers a \<Longrightarrow>
     \<exists>r. score rules now a = Inr r
       \<and> 0 \<le> risk_score r \<and> risk_score r \<le> 10
       \<and> risk_score r = max 0 (min 10 (accumulated rules a))
       \<and> risk_level r = level_of (risk_score r)"
  by (simp add: score_complete clamp_score_def)

theorem score_clamped_witness:
  "complete_answers (responses all_answered)
   \<and> accumulated example_rules (responses all_answered) = 12
   \<and> (\<exists>r. score example_rules 0 (responses all_answered) = Inr r
          \<and> risk_score r = 10 \<and> risk_level r = Unacceptable)"
proof -
  have h: "complete_answers (responses all_answered)"
    by (rule all_answered_complete)
  obtain r where r: "score example_rules 0 (responses all_answered) = Inr r"
    and s: "risk_score r = max 0 (min 10 (accumulated example_rules (responses all_answered)))"
    and l: "risk_level r = level_of (risk_score r)"
    using score_clamped [OF h, of example_rules 0] by blast
  have "risk_score r = 10"
    by (simp add: s accumulated_example_rules)
  moreover from this have "risk_level r = Unacceptable"
    by (simp add: l level_of_def)
  ultimately show ?thesis
    using h r accumulated_example_rules by simp
qed

text \<open>
  Claim C4: for a complete answer set, scoring succeeds and the compliance status is
  determined by the risk level: minimal gives compliant, limited and high both give
  partially compliant, unacceptable gives non-compliant.
\<close>

theorem score_compliance_status:
  "complete_answers a \<Longrightarrow>
     \<exists>r. score rules now a = Inr r
       \<and> compliance_status r =
           (case risk_level r of
              Minimal \<Rightarrow> Compliant
            | Limited \<Rightarrow> Partially_compliant
            | High \<Rightarrow> Partially_compliant
            | Unacceptable \<Rightarrow> Non_compliant)"
  by (simp add: score_complete split: risk_level.split)

theorem score_compliance_status_witness:
  "complete_answers (responses all_answered)
   \<and> (\<exists>r. score two_rules 0 (responses all_answered) = Inr r
          \<and> risk_level r = High \<and> compliance_status r = Partially_compliant)"
proof -
  have h: "complete_answers (responses all_answered)"
    by (rule all_answered_complete)
  obtain r where r: "score two_rules 0 (responses all_answered) = Inr r"
    and c: "compliance_status r =
           (case risk_level r of
              Minimal \<Rightarrow> Compliant
            | Limited \<Rightarrow> Partially_compliant
            | High \<Rightarrow> Partially_compliant
            | Unacceptable \<Rightarrow> Non_compliant)"
    using score_compliance_status [OF h, of two_rules 0] by blast
  have "risk_level r = High"
    using r by (auto simp: score_complete [OF h] accumulated_two_rules clamp_score_def level_of_def)
  then show ?thesis
    using h r c by simp
qed

end
